theory Spec2Isabelle
  imports Main "HOL-Library.Char_ord"
begin

section \<open>Go values\<close>

text \<open>
  A Go \<^verbatim>\<open>[]byte\<close> is a list of bytes; an Isabelle \<^typ>\<open>char\<close> is one byte, so byte
  slices and Go strings are both \<^typ>\<open>char list\<close>. A nil slice and an empty slice both
  have length 0 and are the empty list.
\<close>

type_synonym bytes = "char list"

section \<open>encoding/json: the validity scanner\<close>

text \<open>
  \<^verbatim>\<open>json.Unmarshal(data, &js)\<close> with \<^verbatim>\<open>var js interface{}\<close> first runs the
  scanner of \<^verbatim>\<open>encoding/json\<close> over the whole input (\<^verbatim>\<open>checkValid\<close>) and then
  decodes. The scanner is a state machine fed one byte at a time; it is embedded here
  state function by state function. The stack \<open>parseState\<close> grows at its head.
\<close>

datatype step_state =
    BeginValue | BeginValueOrEmpty | BeginStringOrEmpty | BeginString
  | EndValue | EndTop
  | InString | InStringEsc | InStringEscU | InStringEscU1 | InStringEscU12 | InStringEscU123
  | Neg | St1 | St0 | Dot | Dot0 | StE | ESign | E0
  | StT | Tr | Tru | StF | Fa | Fal | Fals | StN | Nu | Nul
  | StError

datatype parse_state = parseObjectKey | parseObjectValue | parseArrayValue

record scanner =
  step :: step_state
  parseState :: "parse_state list"
  err :: bool
  endTop :: bool

text \<open>Every state function returns the scanner and whether its result code is \<open>scanError\<close>.\<close>

type_synonym scan_result = "scanner \<times> bool"

definition maxNestingDepth :: nat where
  "maxNestingDepth = 10000"

definition isSpace :: "char \<Rightarrow> bool" where
  "isSpace c = (c = CHR '' '' \<or> c = CHR 0x09 \<or> c = CHR 0x0D \<or> c = CHR 0x0A)"

definition isDigit :: "char \<Rightarrow> bool" where
  "isDigit c = (CHR ''0'' \<le> c \<and> c \<le> CHR ''9'')"

definition isHex :: "char \<Rightarrow> bool" where
  "isHex c = (CHR ''0'' \<le> c \<and> c \<le> CHR ''9'' \<or> CHR ''a'' \<le> c \<and> c \<le> CHR ''f''
     \<or> CHR ''A'' \<le> c \<and> c \<le> CHR ''F'')"

definition scan_error :: "scanner \<Rightarrow> scan_result" where
  "scan_error s = (s\<lparr>step := StError, err := True\<rparr>, True)"

definition continue :: "scanner \<Rightarrow> step_state \<Rightarrow> scan_result" where
  "continue s st = (s\<lparr>step := st\<rparr>, False)"

definition pushParseState :: "scanner \<Rightarrow> parse_state \<Rightarrow> scan_result" where
  "pushParseState s p =
     (let s' = s\<lparr>parseState := p # parseState s\<rparr>
      in if length (parseState s') \<le> maxNestingDepth then (s', False) else scan_error s')"

definition popParseState :: "scanner \<Rightarrow> scanner" where
  "popParseState s =
     (let ps = tl (parseState s)
      in if ps = [] then s\<lparr>parseState := ps, step := EndTop, endTop := True\<rparr>
         else s\<lparr>parseState := ps, step := EndValue\<rparr>)"

definition stateEndTop :: "scanner \<Rightarrow> char \<Rightarrow> scan_result" where
  "stateEndTop s c = (if \<not> isSpace c then (fst (scan_error s), False) else (s, False))"

definition stateEndValue :: "scanner \<Rightarrow> char \<Rightarrow> scan_result" where
  "stateEndValue s c =
     (case parseState s of
        [] \<Rightarrow> stateEndTop (s\<lparr>step := EndTop, endTop := True\<rparr>) c
      | p # ps \<Rightarrow>
          if isSpace c then continue s EndValue
          else (case p of
              parseObjectKey \<Rightarrow>
                if c = CHR '':'' then continue (s\<lparr>parseState := parseObjectValue # ps\<rparr>) BeginValue
                else scan_error s
            | parseObjectValue \<Rightarrow>
                if c = CHR '','' then continue (s\<lparr>parseState := parseObjectKey # ps\<rparr>) BeginString
                else if c = CHR ''}'' then (popParseState s, False)
                else scan_error s
            | parseArrayValue \<Rightarrow>
                if c = CHR '','' then continue s BeginValue
                else if c = CHR '']'' then (popParseState s, False)
                else scan_error s))"

definition stateBeginValue :: "scanner \<Rightarrow> char \<Rightarrow> scan_result" where
  "stateBeginValue s c =
     (if isSpace c then (s, False)
      else if c = CHR ''{'' then pushParseState (s\<lparr>step := BeginStringOrEmpty\<rparr>) parseObjectKey
      else if c = CHR ''['' then pushParseState (s\<lparr>step := BeginValueOrEmpty\<rparr>) parseArrayValue
      else if c = CHR 0x22 then continue s InString
      else if c = CHR ''-'' then continue s Neg
      else if c = CHR ''0'' then continue s St0
      else if c = CHR ''t'' then continue s StT
      else if c = CHR ''f'' then continue s StF
      else if c = CHR ''n'' then continue s StN
      else if CHR ''1'' \<le> c \<and> c \<le> CHR ''9'' then continue s St1
      else scan_error s)"

definition stateBeginValueOrEmpty :: "scanner \<Rightarrow> char \<Rightarrow> scan_result" where
  "stateBeginValueOrEmpty s c =
     (if isSpace c then (s, False)
      else if c = CHR '']'' then stateEndValue s c
      else stateBeginValue s c)"

definition stateBeginString :: "scanner \<Rightarrow> char \<Rightarrow> scan_result" where
  "stateBeginString s c =
     (if isSpace c then (s, False)
      else if c = CHR 0x22 then continue s InString
      else scan_error s)"

definition stateBeginStringOrEmpty :: "scanner \<Rightarrow> char \<Rightarrow> scan_result" where
  "stateBeginStringOrEmpty s c =
     (if isSpace c then (s, False)
      else if c = CHR ''}'' then
        stateEndValue (s\<lparr>parseState := parseObjectValue # tl (parseState s)\<rparr>) c
      else stateBeginString s c)"

definition stateInString :: "scanner \<Rightarrow> char \<Rightarrow> scan_result" where
  "stateInString s c =
     (if c = CHR 0x22 then continue s EndValue
      else if c = CHR 0x5C then continue s InStringEsc
      else if c < CHR 0x20 then scan_error s
      else (s, False))"

definition stateInStringEsc :: "scanner \<Rightarrow> char \<Rightarrow> scan_result" where
  "stateInStringEsc s c =
     (if c = CHR ''b'' \<or> c = CHR ''f'' \<or> c = CHR ''n'' \<or> c = CHR ''r'' \<or> c = CHR ''t''
         \<or> c = CHR 0x5C \<or> c = CHR ''/'' \<or> c = CHR 0x22 then continue s InString
      else if c = CHR ''u'' then continue s InStringEscU
      else scan_error s)"

definition stateHex :: "step_state \<Rightarrow> scanner \<Rightarrow> char \<Rightarrow> scan_result" where
  "stateHex nxt s c = (if isHex c then continue s nxt else scan_error s)"

definition stateNeg :: "scanner \<Rightarrow> char \<Rightarrow> scan_result" where
  "stateNeg s c =
     (if c = CHR ''0'' then continue s St0
      else if CHR ''1'' \<le> c \<and> c \<le> CHR ''9'' then continue s St1
      else scan_error s)"

definition state0 :: "scanner \<Rightarrow> char \<Rightarrow> scan_result" where
  "state0 s c =
     (if c = CHR ''.'' then continue s Dot
      else if c = CHR ''e'' \<or> c = CHR ''E'' then continue s StE
      else stateEndValue s c)"

definition state1 :: "scanner \<Rightarrow> char \<Rightarrow> scan_result" where
  "state1 s c = (if isDigit c then continue s St1 else state0 s c)"

definition stateDot :: "scanner \<Rightarrow> char \<Rightarrow> scan_result" where
  "stateDot s c = (if isDigit c then continue s Dot0 else scan_error s)"

definition stateDot0 :: "scanner \<Rightarrow> char \<Rightarrow> scan_result" where
  "stateDot0 s c =
     (if isDigit c then (s, False)
      else if c = CHR ''e'' \<or> c = CHR ''E'' then continue s StE
      else stateEndValue s c)"

definition stateESign :: "scanner \<Rightarrow> char \<Rightarrow> scan_result" where
  "stateESign s c = (if isDigit c then continue s E0 else scan_error s)"

definition stateE :: "scanner \<Rightarrow> char \<Rightarrow> scan_result" where
  "stateE s c =
     (if c = CHR ''+'' \<or> c = CHR ''-'' then continue s ESign else stateESign s c)"

definition stateE0 :: "scanner \<Rightarrow> char \<Rightarrow> scan_result" where
  "stateE0 s c = (if isDigit c then (s, False) else stateEndValue s c)"

definition stateLetter :: "char \<Rightarrow> step_state \<Rightarrow> scanner \<Rightarrow> char \<Rightarrow> scan_result" where
  "stateLetter expected nxt s c = (if c = expected then continue s nxt else scan_error s)"

text \<open>\<^verbatim>\<open>s.step(s, c)\<close>: the dispatch on the current state function.\<close>

definition scan_step :: "scanner \<Rightarrow> char \<Rightarrow> scan_result" where
  "scan_step s c =
     (case step s of
        BeginValue \<Rightarrow> stateBeginValue s c
      | BeginValueOrEmpty \<Rightarrow> stateBeginValueOrEmpty s c
      | BeginStringOrEmpty \<Rightarrow> stateBeginStringOrEmpty s c
      | BeginString \<Rightarrow> stateBeginString s c
      | EndValue \<Rightarrow> stateEndValue s c
      | EndTop \<Rightarrow> stateEndTop s c
      | InString \<Rightarrow> stateInString s c
      | InStringEsc \<Rightarrow> stateInStringEsc s c
      | InStringEscU \<Rightarrow> stateHex InStringEscU1 s c
      | InStringEscU1 \<Rightarrow> stateHex InStringEscU12 s c
      | InStringEscU12 \<Rightarrow> stateHex InStringEscU123 s c
      | InStringEscU123 \<Rightarrow> stateHex InString s c
      | Neg \<Rightarrow> stateNeg s c
      | St1 \<Rightarrow> state1 s c
      | St0 \<Rightarrow> state0 s c
      | Dot \<Rightarrow> stateDot s c
      | Dot0 \<Rightarrow> stateDot0 s c
      | StE \<Rightarrow> stateE s c
      | ESign \<Rightarrow> stateESign s c
      | E0 \<Rightarrow> stateE0 s c
      | StT \<Rightarrow> stateLetter (CHR ''r'') Tr s c
      | Tr \<Rightarrow> stateLetter (CHR ''u'') Tru s c
      | Tru \<Rightarrow> stateLetter (CHR ''e'') EndValue s c
      | StF \<Rightarrow> stateLetter (CHR ''a'') Fa s c
      | Fa \<Rightarrow> stateLetter (CHR ''l'') Fal s c
      | Fal \<Rightarrow> stateLetter (CHR ''s'') Fals s c
      | Fals \<Rightarrow> stateLetter (CHR ''e'') EndValue s c
      | StN \<Rightarrow> stateLetter (CHR ''u'') Nu s c
      | Nu \<Rightarrow> stateLetter (CHR ''l'') Nul s c
      | Nul \<Rightarrow> stateLetter (CHR ''l'') EndValue s c
      | StError \<Rightarrow> (s, True))"

definition scanner_reset :: scanner where
  "scanner_reset = \<lparr>step = BeginValue, parseState = [], err = False, endTop = False\<rparr>"

text \<open>
  \<^verbatim>\<open>checkValid\<close>'s loop over the bytes: \<open>None\<close> when a step returned \<open>scanError\<close>,
  the scanner after the last byte otherwise.
\<close>

fun scan_bytes :: "scanner \<Rightarrow> bytes \<Rightarrow> scanner option" where
  "scan_bytes s [] = Some s"
| "scan_bytes s (c # cs) =
     (case scan_step s c of (s', is_err) \<Rightarrow> if is_err then None else scan_bytes s' cs)"

text \<open>\<^verbatim>\<open>scanner.eof\<close>: True when the input ended where a top-level value is complete.\<close>

definition scanner_eof :: "scanner \<Rightarrow> bool" where
  "scanner_eof s =
     (if err s then False
      else if endTop s then True
      else endTop (fst (scan_step s (CHR '' ''))))"

definition checkValid :: "bytes \<Rightarrow> bool" where
  "checkValid data = (case scan_bytes scanner_reset data of None \<Rightarrow> False | Some s \<Rightarrow> scanner_eof s)"

section \<open>encoding/json: decoding number literals\<close>

text \<open>
  After the scan, decoding into \<^verbatim>\<open>interface{}\<close> can fail in one way only: a number
  literal is converted with \<^verbatim>\<open>strconv.ParseFloat(s, 64)\<close>, whose documented contract
  is a range error when the literal is too large for a float64 (it would round to an
  infinity). The largest finite float64 is \<open>2^1024 - 2^971\<close>; a decimal at or above the
  midpoint \<open>2^1024 - 2^970\<close> rounds (to nearest, ties to even) to infinity. The test is
  made here on the exact decimal value of the literal, with integers only. Literals
  that are too small round to zero without an error.

  The decoder finds a number literal as the longest run of the bytes \<open>0-9 . e E + -\<close>
  that starts at a digit or a minus sign outside a string.
\<close>

definition isNumberByte :: "char \<Rightarrow> bool" where
  "isNumberByte c = (isDigit c \<or> c = CHR ''.'' \<or> c = CHR ''e'' \<or> c = CHR ''E''
     \<or> c = CHR ''+'' \<or> c = CHR ''-'')"

datatype lit_mode = Outside | InStr | InStrEsc | InNum

fun numberLiterals :: "lit_mode \<Rightarrow> bytes \<Rightarrow> bytes \<Rightarrow> bytes list" where
  "numberLiterals m acc [] = (if m = InNum then [rev acc] else [])"
| "numberLiterals m acc (c # cs) =
     (case m of
        Outside \<Rightarrow>
          if c = CHR 0x22 then numberLiterals InStr [] cs
          else if c = CHR ''-'' \<or> isDigit c then numberLiterals InNum [c] cs
          else numberLiterals Outside [] cs
      | InStr \<Rightarrow>
          if c = CHR 0x5C then numberLiterals InStrEsc [] cs
          else if c = CHR 0x22 then numberLiterals Outside [] cs
          else numberLiterals InStr [] cs
      | InStrEsc \<Rightarrow> numberLiterals InStr [] cs
      | InNum \<Rightarrow>
          if isNumberByte c then numberLiterals InNum (c # acc) cs
          else rev acc #
            (if c = CHR 0x22 then numberLiterals InStr [] cs else numberLiterals Outside [] cs))"

definition digitVal :: "char \<Rightarrow> nat" where
  "digitVal c = of_char c - 48"

definition decimal :: "bytes \<Rightarrow> nat" where
  "decimal ds = foldl (\<lambda>n c. 10 * n + digitVal c) 0 ds"

text \<open>
  The parts of a literal \<open>-? int (. frac)? ([eE] [+-]? exp)?\<close>: the digits before the point,
  the digits after it, whether the exponent is negative, and the exponent's digits.
\<close>

definition literal_parts :: "bytes \<Rightarrow> bytes \<times> bytes \<times> bool \<times> bytes" where
  "literal_parts lit =
     (let u = (case lit of c # r \<Rightarrow> if c = CHR ''-'' then r else lit | [] \<Rightarrow> []);
          ip = takeWhile isDigit u;
          r1 = dropWhile isDigit u;
          r1' = (case r1 of c # r \<Rightarrow> if c = CHR ''.'' then r else [] | [] \<Rightarrow> []);
          fp = takeWhile isDigit r1';
          r2 = (case r1 of c # r \<Rightarrow> if c = CHR ''.'' then dropWhile isDigit r else r1 | [] \<Rightarrow> []);
          ex = (case r2 of c # r \<Rightarrow> if c = CHR ''e'' \<or> c = CHR ''E'' then r else [] | [] \<Rightarrow> []);
          eneg = (case ex of c # r \<Rightarrow> c = CHR ''-'' | [] \<Rightarrow> False);
          ed = (case ex of c # r \<Rightarrow> if c = CHR ''-'' \<or> c = CHR ''+'' then r else ex | [] \<Rightarrow> [])
      in (ip, fp, eneg, takeWhile isDigit ed))"

definition float64_limit :: nat where
  "float64_limit = 2 ^ 1024 - 2 ^ 970"

definition ParseFloat_ok :: "bytes \<Rightarrow> bool" where
  "ParseFloat_ok lit =
     (case literal_parts lit of (ip, fp, eneg, ed) \<Rightarrow>
        let m = decimal (ip @ fp);
            e = (if eneg then - int (decimal ed) else int (decimal ed)) - int (length fp)
        in if 0 \<le> e then m * 10 ^ nat e < float64_limit
           else m < float64_limit * 10 ^ nat (- e))"

datatype json_error = SyntaxError | UnmarshalTypeError

text \<open>\<^verbatim>\<open>json.Unmarshal(data, &js)\<close> for \<^verbatim>\<open>var js interface{}\<close>: \<open>None\<close> is the nil error.\<close>

definition json_Unmarshal :: "bytes \<Rightarrow> json_error option" where
  "json_Unmarshal data =
     (if \<not> checkValid data then Some SyntaxError
      else if list_all ParseFloat_ok (numberLiterals Outside [] data) then None
      else Some UnmarshalTypeError)"

section \<open>time\<close>

text \<open>
  A \<^verbatim>\<open>time.Time\<close> is an instant, counted in nanoseconds from the zero Time (the value
  of an unset field); a \<^verbatim>\<open>time.Duration\<close> is an int64 count of nanoseconds.
  \<^verbatim>\<open>Time.Sub\<close> saturates at the ends of the Duration range, and
  \<^verbatim>\<open>time.Since(t)\<close> is \<^verbatim>\<open>time.Now().Sub(t)\<close>; the clock reading is an argument.
\<close>

type_synonym Time = int
type_synonym Duration = int

definition maxDuration :: Duration where
  "maxDuration = 2 ^ 63 - 1"

definition minDuration :: Duration where
  "minDuration = - (2 ^ 63)"

definition time_Sub :: "Time \<Rightarrow> Time \<Rightarrow> Duration" where
  "time_Sub t u =
     (let d = t - u
      in if maxDuration < d then maxDuration else if d < minDuration then minDuration else d)"

definition time_Since :: "Time \<Rightarrow> Time \<Rightarrow> Duration" where
  "time_Since now t = time_Sub now t"

section \<open>The collaborators of the cache\<close>

text \<open>
  A \<^verbatim>\<open>context.Context\<close> is nil, the background context, or a context of some caller.
  The token manager and the HTTP client are pointers to objects outside these files; they
  are handles here, and what they answer is part of the outcome record of a run of
  \<open>refresh\<close>.
\<close>

datatype "context" = NilContext | Background | CallerContext nat

type_synonym TokenManager = nat

datatype client = DefaultClient | Client nat

record request =
  Method :: string
  URL :: string
  Ctx :: "context"
  Header :: "string \<rightharpoonup> string"

text \<open>
  A response: its status code and status line, the bytes \<^verbatim>\<open>io.ReadAll(resp.Body)\<close>
  returns and the error it returns with them (\<open>None\<close> when the body was read to its end).
\<close>

record response =
  StatusCode :: int
  Status :: string
  Body :: bytes
  BodyErr :: "string option"

text \<open>
  What the outside world answers during one run of \<open>refresh\<close>: the token manager's
  \<^verbatim>\<open>GetToken(ctx)\<close>, the client's \<^verbatim>\<open>Do(req)\<close>, and the reading of \<^verbatim>\<open>time.Now()\<close>
  at the commit.
\<close>

record refresh_io =
  GetToken :: "TokenManager \<Rightarrow> context \<Rightarrow> string + string"
  Do :: "client \<Rightarrow> request \<Rightarrow> string + response"
  Now :: Time

datatype error =
    TokenError string
  | RequestError string
  | FetchError string
  | ModelsAPIError string bytes
  | BodyReadError string
  | InvalidModelsJSON json_error
  | ModelsNotAvailable
  | NoModelsToSave
  | FileError string

text \<open>
  The constructors stand for the error values of models.go, in this order: the token
  error wrapped as "failed to get Copilot token", the error of
  \<^verbatim>\<open>http.NewRequestWithContext\<close> returned as it is, the transport error wrapped as
  "failed to fetch models", "models API error: <status> - <body>", the error of
  \<^verbatim>\<open>io.ReadAll\<close> returned as it is, the JSON error wrapped as "invalid models JSON",
  "models not available", "no models to save", and an error of \<^verbatim>\<open>os.ReadFile\<close> or
  \<^verbatim>\<open>os.WriteFile\<close> returned as it is.
\<close>

definition modelsURL :: string where
  "modelsURL = ''https://api.githubcopilot.com/models''"

text \<open>
  \<^verbatim>\<open>http.NewRequestWithContext(ctx, http.MethodGet, modelsURL, nil)\<close>: the method is
  valid and the URL parses, so the call fails for a nil context only.
\<close>

definition NewRequestWithContext :: "context \<Rightarrow> string \<Rightarrow> string \<Rightarrow> string + request" where
  "NewRequestWithContext ctx m u =
     (if ctx = NilContext then Inl ''net/http: nil Context''
      else Inr \<lparr>Method = m, URL = u, Ctx = ctx, Header = Map.empty\<rparr>)"

definition Header_Set :: "request \<Rightarrow> string \<Rightarrow> string \<Rightarrow> request" where
  "Header_Set req k v = req\<lparr>Header := (Header req)(k \<mapsto> v)\<rparr>"

section \<open>ModelsCache\<close>

record ModelsCache =
  modelsJSON :: bytes
  lastFetch :: Time
  ttl :: Duration
  tokenManager :: TokenManager
  httpClient :: client

text \<open>
  The request \<open>refresh\<close> builds once it has a token.
\<close>

definition models_request :: "request \<Rightarrow> string \<Rightarrow> request" where
  "models_request req token =
     Header_Set (Header_Set (Header_Set (Header_Set req
       ''Accept'' ''application/json'')
       ''Authorization'' (''Bearer '' @ token))
       ''Editor-Version'' ''vscode/1.95.0'')
       ''Copilot-Integration-Id'' ''vscode-chat''"

text \<open>
  \<open>refresh\<close> returns its error (\<open>None\<close> for nil), the cache after the call, and the
  requests it handed to the HTTP client. The two assignments under the write lock are one
  record update.
\<close>

definition refresh :: "refresh_io \<Rightarrow> context \<Rightarrow> ModelsCache \<Rightarrow> error option \<times> ModelsCache \<times> request list" where
  "refresh io ctx c =
     (case GetToken io (tokenManager c) ctx of
        Inl e \<Rightarrow> (Some (TokenError e), c, [])
      | Inr token \<Rightarrow>
          (case NewRequestWithContext ctx ''GET'' modelsURL of
             Inl e \<Rightarrow> (Some (RequestError e), c, [])
           | Inr req0 \<Rightarrow>
               let req = models_request req0 token in
               (case Do io (httpClient c) req of
                  Inl e \<Rightarrow> (Some (FetchError e), c, [req])
                | Inr resp \<Rightarrow>
                    if StatusCode resp \<noteq> 200 then
                      (Some (ModelsAPIError (Status resp) (Body resp)), c, [req])
                    else
                      (case BodyErr resp of
                         Some e \<Rightarrow> (Some (BodyReadError e), c, [req])
                       | None \<Rightarrow>
                           (case json_Unmarshal (Body resp) of
                              Some je \<Rightarrow> (Some (InvalidModelsJSON je), c, [req])
                            | None \<Rightarrow>
                                (None, c\<lparr>modelsJSON := Body resp, lastFetch := Now io\<rparr>, [req]))))))"

text \<open>
  \<open>NewModelsCache\<close> returns the error or the cache, and the requests sent meanwhile. A nil
  \<open>httpClient\<close> is \<open>None\<close>.
\<close>

definition NewModelsCache ::
  "refresh_io \<Rightarrow> context \<Rightarrow> TokenManager \<Rightarrow> Duration \<Rightarrow> client option
     \<Rightarrow> (error + ModelsCache) \<times> request list" where
  "NewModelsCache io ctx tm d hc =
     (let cache = \<lparr>modelsJSON = [], lastFetch = 0, ttl = d, tokenManager = tm,
                   httpClient = (case hc of None \<Rightarrow> DefaultClient | Some h \<Rightarrow> h)\<rparr>
      in case refresh io ctx cache of
           (Some e, _, sent) \<Rightarrow> (Inl e, sent)
         | (None, cache', sent) \<Rightarrow> (Inr cache', sent))"

text \<open>
  \<open>GetModels\<close> reads the cache and the clock only. It returns the bytes or the error, and
  the contexts of the \<open>refresh\<close> goroutines it started; the cache is not changed by the
  call itself.
\<close>

definition GetModels :: "Time \<Rightarrow> context \<Rightarrow> ModelsCache \<Rightarrow> (error + bytes) \<times> context list" where
  "GetModels now ctx c =
     (let models = modelsJSON c;
          expired = (time_Since now (lastFetch c) > ttl c)
      in if \<not> expired \<and> length models > 0 then (Inr models, [])
         else (if length models > 0 then Inr models else Inl ModelsNotAvailable, [Background]))"

section \<open>Files\<close>

text \<open>
  The file system maps a path to the bytes of the file there.
  \<^verbatim>\<open>os.WriteFile\<close> opens the file (creating or truncating it), writes, and closes; each
  of the three can fail, and the outcome is an argument. \<^verbatim>\<open>os.ReadFile\<close> fails when
  the file is missing or when the outcome says so.
\<close>

type_synonym fs = "string \<rightharpoonup> bytes"

datatype write_outcome = WriteOk | OpenFailed string | WriteFailed string nat | CloseFailed string

definition os_WriteFile :: "write_outcome \<Rightarrow> fs \<Rightarrow> string \<Rightarrow> bytes \<Rightarrow> string option \<times> fs" where
  "os_WriteFile w files path data =
     (case w of
        WriteOk \<Rightarrow> (None, files(path \<mapsto> data))
      | OpenFailed e \<Rightarrow> (Some e, files)
      | WriteFailed e n \<Rightarrow> (Some e, files(path \<mapsto> take n data))
      | CloseFailed e \<Rightarrow> (Some e, files(path \<mapsto> data)))"

definition os_ReadFile :: "string option \<Rightarrow> fs \<Rightarrow> string \<Rightarrow> string + bytes" where
  "os_ReadFile failure files path =
     (case failure of
        Some e \<Rightarrow> Inl e
      | None \<Rightarrow> (case files path of None \<Rightarrow> Inl ''no such file or directory'' | Some data \<Rightarrow> Inr data))"

definition SaveToFile :: "write_outcome \<Rightarrow> fs \<Rightarrow> string \<Rightarrow> ModelsCache \<Rightarrow> error option \<times> fs" where
  "SaveToFile w files path c =
     (if length (modelsJSON c) = 0 then (Some NoModelsToSave, files)
      else case os_WriteFile w files path (modelsJSON c) of
             (None, files') \<Rightarrow> (None, files')
           | (Some e, files') \<Rightarrow> (Some (FileError e), files'))"

definition LoadFromFile ::
  "Time \<Rightarrow> string option \<Rightarrow> fs \<Rightarrow> string \<Rightarrow> ModelsCache \<Rightarrow> error option \<times> ModelsCache" where
  "LoadFromFile now failure files path c =
     (case os_ReadFile failure files path of
        Inl e \<Rightarrow> (Some (FileError e), c)
      | Inr data \<Rightarrow>
          (case json_Unmarshal data of
             Some je \<Rightarrow> (Some (InvalidModelsJSON je), c)
           | None \<Rightarrow> (None, c\<lparr>modelsJSON := data, lastFetch := now\<rparr>)))"

section \<open>The states a cache goes through\<close>

text \<open>
  A cache exists once \<open>NewModelsCache\<close> has returned it. From then on its fields change
  only in \<open>refresh\<close> (run in the background by \<open>GetModels\<close>) and in \<open>LoadFromFile\<close>, each
  with any outcome of the outside world.
\<close>

inductive reachable :: "ModelsCache \<Rightarrow> bool" where
  constructed: "NewModelsCache io ctx tm d hc = (Inr c, sent) \<Longrightarrow> reachable c"
| refreshed: "reachable c \<Longrightarrow> refresh io ctx c = (r, c', sent) \<Longrightarrow> reachable c'"
| loaded: "reachable c \<Longrightarrow> LoadFromFile now failure files path c = (r, c') \<Longrightarrow> reachable c'"

section \<open>Configuration: the proxy\<close>

text \<open>
  The environment maps a variable's name to its value. \<open>Load_httpProxy\<close> is the value
  \<open>Load\<close> computes for \<open>httpProxy\<close> and stores in the field \<open>HTTPProxy\<close>.
\<close>

type_synonym environ = "string \<rightharpoonup> string"

definition getEnv :: "environ \<Rightarrow> string \<Rightarrow> string \<Rightarrow> string" where
  "getEnv env k def = (case env k of Some val \<Rightarrow> val | None \<Rightarrow> def)"

definition Load_httpProxy :: "environ \<Rightarrow> string" where
  "Load_httpProxy env =
     (let httpProxy = getEnv env ''HTTPS_PROXY'' '''';
          httpProxy = (if httpProxy = '''' then getEnv env ''https_proxy'' '''' else httpProxy);
          httpProxy = (if httpProxy = '''' then getEnv env ''HTTP_PROXY'' '''' else httpProxy);
          httpProxy = (if httpProxy = '''' then getEnv env ''http_proxy'' '''' else httpProxy);
          httpProxy = (if httpProxy = '''' then getEnv env ''ALL_PROXY'' '''' else httpProxy);
          httpProxy = (if httpProxy = '''' then getEnv env ''all_proxy'' '''' else httpProxy)
      in httpProxy)"

text \<open>
  The selection as the specification words it: the variables in their order of precedence,
  and the first value among them that is not empty.
\<close>

definition proxy_variables :: "string list" where
  "proxy_variables =
     [''HTTPS_PROXY'', ''https_proxy'', ''HTTP_PROXY'', ''http_proxy'', ''ALL_PROXY'', ''all_proxy'']"

fun first_nonempty :: "string list \<Rightarrow> string" where
  "first_nonempty [] = ''''"
| "first_nonempty (v # vs) = (if v \<noteq> '''' then v else first_nonempty vs)"

definition spec_proxy :: "environ \<Rightarrow> string" where
  "spec_proxy env = first_nonempty (map (\<lambda>k. getEnv env k '''') proxy_variables)"

section \<open>Concrete caches and worlds\<close>

text \<open>
  A cache holding the two-byte object \<open>{}\<close>, fetched at instant 100, with a TTL of 50; and
  a world in which the token manager hands out a token and the server answers every
  request with the given status and body, the body being read to its end.
\<close>

definition example_cache :: ModelsCache where
  "example_cache = \<lparr>modelsJSON = ''{}'', lastFetch = 100, ttl = 50, tokenManager = 0,
     httpClient = DefaultClient\<rparr>"

definition answering :: "int \<Rightarrow> string \<Rightarrow> bytes \<Rightarrow> Time \<Rightarrow> refresh_io" where
  "answering code line body t =
     \<lparr>GetToken = (\<lambda>tm ctx. Inr ''tok''),
      Do = (\<lambda>cl req. Inr \<lparr>StatusCode = code, Status = line, Body = body, BodyErr = None\<rparr>),
      Now = t\<rparr>"

definition example_request :: request where
  "example_request =
     \<lparr>Method = ''GET'', URL = modelsURL, Ctx = Background,
      Header = [''Accept'' \<mapsto> ''application/json'', ''Authorization'' \<mapsto> ''Bearer tok'',
        ''Editor-Version'' \<mapsto> ''vscode/1.95.0'', ''Copilot-Integration-Id'' \<mapsto> ''vscode-chat'']\<rparr>"

text \<open>
  What the specification calls a JSON object: well-formed JSON whose first byte after
  the white space opens an object.
\<close>

definition is_json_object :: "bytes \<Rightarrow> bool" where
  "is_json_object data =
     (checkValid data \<and> (case dropWhile isSpace data of c # r \<Rightarrow> c = CHR ''{'' | [] \<Rightarrow> False))"

section \<open>Facts about the JSON check\<close>

lemma checkValid_empty: "\<not> checkValid []"
  by (simp add: checkValid_def scanner_eof_def scanner_reset_def scan_step_def
      stateBeginValue_def isSpace_def)

lemmas json_eval =
  json_Unmarshal_def checkValid_def scanner_eof_def scanner_reset_def scan_step_def
  stateBeginValue_def stateBeginValueOrEmpty_def stateBeginString_def stateBeginStringOrEmpty_def
  stateEndValue_def stateEndTop_def stateInString_def state1_def state0_def
  isSpace_def isDigit_def continue_def pushParseState_def popParseState_def scan_error_def
  maxNestingDepth_def isNumberByte_def ParseFloat_ok_def literal_parts_def decimal_def
  digitVal_def float64_limit_def

lemma json_Unmarshal_empty: "json_Unmarshal [] = Some SyntaxError"
  by (simp add: json_Unmarshal_def checkValid_empty)

lemma json_Unmarshal_nonempty: "json_Unmarshal data = None \<Longrightarrow> data \<noteq> []"
  using json_Unmarshal_empty by auto

lemma json_Unmarshal_checkValid: "json_Unmarshal data = None \<Longrightarrow> checkValid data"
  by (simp add: json_Unmarshal_def split: if_splits)

lemma json_empty_object: "json_Unmarshal ''{}'' = None"
  by (simp add: json_eval)

lemma json_array_123: "json_Unmarshal ''[1,2,3]'' = None"
  by (simp add: json_eval)

lemma json_gpt4: "json_Unmarshal ''{\"data\":[{\"id\":\"gpt-4\"}]}'' = None"
  by (simp add: json_eval)

lemma json_unclosed: "json_Unmarshal ''{\"data\":'' = Some SyntaxError"
  by (simp add: json_eval)

section \<open>Facts about refresh\<close>

lemma refresh_error_keeps_cache:
  "refresh io ctx c = (Some e, c', sent) \<Longrightarrow> c' = c"
  by (auto simp: refresh_def Let_def split: sum.splits option.splits if_splits)

lemma refresh_success_commits:
  "refresh io ctx c = (None, c', sent) \<Longrightarrow>
     c' = c\<lparr>modelsJSON := modelsJSON c', lastFetch := Now io\<rparr> \<and>
     json_Unmarshal (modelsJSON c') = None"
  by (auto simp: refresh_def Let_def split: sum.splits option.splits if_splits)

lemma refresh_sent_le_1: "length (snd (snd (refresh io ctx c))) \<le> 1"
  by (auto simp: refresh_def Let_def split: sum.splits option.splits if_splits)

lemma refresh_200:
  assumes "GetToken io (tokenManager c) ctx = Inr token"
    and "NewRequestWithContext ctx ''GET'' modelsURL = Inr req0"
    and "Do io (httpClient c) (models_request req0 token) = Inr resp"
    and "StatusCode resp = 200"
    and "BodyErr resp = None"
  shows "refresh io ctx c =
     (case json_Unmarshal (Body resp) of
        Some je \<Rightarrow> (Some (InvalidModelsJSON je), c, [models_request req0 token])
      | None \<Rightarrow> (None, c\<lparr>modelsJSON := Body resp, lastFetch := Now io\<rparr>,
          [models_request req0 token]))"
  using assms by (simp add: refresh_def Let_def split: option.splits)

lemma LoadFromFile_error_keeps_cache:
  "LoadFromFile now failure files path c = (Some e, c') \<Longrightarrow> c' = c"
  by (auto simp: LoadFromFile_def split: sum.splits option.splits)

lemma LoadFromFile_success_commits:
  "LoadFromFile now failure files path c = (None, c') \<Longrightarrow>
     c' = c\<lparr>modelsJSON := modelsJSON c', lastFetch := now\<rparr> \<and>
     json_Unmarshal (modelsJSON c') = None \<and> files path = Some (modelsJSON c')"
  by (auto simp: LoadFromFile_def os_ReadFile_def split: sum.splits option.splits)

lemma GetModels_serves_blob:
  "modelsJSON c \<noteq> [] \<Longrightarrow> fst (GetModels now ctx c) = Inr (modelsJSON c)"
  by (simp add: GetModels_def Let_def)

section \<open>Facts about the concrete worlds\<close>

lemma example_request_eq:
  "NewRequestWithContext Background ''GET'' modelsURL = Inr req0 \<Longrightarrow>
     models_request req0 ''tok'' = example_request"
  by (auto simp: NewRequestWithContext_def models_request_def Header_Set_def example_request_def)

lemma refresh_answering_200:
  "json_Unmarshal body = None \<Longrightarrow>
   refresh (answering 200 line body t) Background c =
     (None, c\<lparr>modelsJSON := body, lastFetch := t\<rparr>, [example_request])"
  by (simp add: refresh_def answering_def NewRequestWithContext_def models_request_def
      Header_Set_def example_request_def)

lemma refresh_answering_other:
  "code \<noteq> 200 \<Longrightarrow>
   refresh (answering code line body t) Background c =
     (Some (ModelsAPIError line body), c, [example_request])"
  by (simp add: refresh_def answering_def NewRequestWithContext_def models_request_def
      Header_Set_def example_request_def)

lemma reachable_example: "reachable example_cache"
proof -
  have "NewModelsCache (answering 200 ''200 OK'' ''{}'' 100) Background 0 50 None
      = (Inr example_cache, [example_request])"
    by (simp add: NewModelsCache_def refresh_answering_200 json_empty_object example_cache_def)
  then show ?thesis by (rule reachable.constructed)
qed

section \<open>Facts about the reachable states\<close>

lemma reachable_blob_accepted:
  "reachable c \<Longrightarrow> json_Unmarshal (modelsJSON c) = None"
proof (induction rule: reachable.induct)
  case (constructed io ctx tm d hc c sent)
  then show ?case
    by (auto simp: NewModelsCache_def split: prod.splits option.splits
        dest: refresh_success_commits)
next
  case (refreshed c io ctx r c' sent)
  then show ?case
    by (cases r) (auto dest: refresh_success_commits refresh_error_keeps_cache)
next
  case (loaded c now failure files path r c')
  then show ?case
    by (cases r) (auto dest: LoadFromFile_success_commits LoadFromFile_error_keeps_cache)
qed

text \<open>
  A reachable cache can always be saved when the write succeeds, and what was saved
  can always be loaded when the read succeeds.
\<close>

lemma save_then_load_succeeds:
  assumes "reachable c"
  shows "SaveToFile WriteOk files path c = (None, files(path \<mapsto> modelsJSON c)) \<and>
    LoadFromFile now None (files(path \<mapsto> modelsJSON c)) path d
      = (None, d\<lparr>modelsJSON := modelsJSON c, lastFetch := now\<rparr>)"
proof -
  from assms have ok: "json_Unmarshal (modelsJSON c) = None"
    by (rule reachable_blob_accepted)
  then have "modelsJSON c \<noteq> []"
    by (rule json_Unmarshal_nonempty)
  with ok show ?thesis
    by (simp add: SaveToFile_def os_WriteFile_def LoadFromFile_def os_ReadFile_def)
qed

section \<open>Payload validation\<close>

text \<open>
  C1 as the specification states it: bytes that are well-formed JSON but not a JSON
  object make the operation fail with the invalid-payload error and leave the blob and
  lastFetch as they were. The file containing the array \<open>[1,2,3]\<close> refutes it: the bytes
  are well-formed, are not an object, and both \<open>LoadFromFile\<close> and \<open>refresh\<close> return no
  error and store them.
\<close>

theorem array_payload_is_stored:
  "json_Unmarshal ''[1,2,3]'' = None \<and> \<not> is_json_object ''[1,2,3]'' \<and>
   LoadFromFile 7 None [''models.json'' \<mapsto> ''[1,2,3]''] ''models.json'' example_cache
     = (None, example_cache\<lparr>modelsJSON := ''[1,2,3]'', lastFetch := 7\<rparr>) \<and>
   refresh (answering 200 ''200 OK'' ''[1,2,3]'' 7) Background example_cache
     = (None, example_cache\<lparr>modelsJSON := ''[1,2,3]'', lastFetch := 7\<rparr>, [example_request])"
  by (simp add: json_array_123 refresh_answering_200 LoadFromFile_def os_ReadFile_def
      is_json_object_def isSpace_def)

text \<open>
  C1, amended: the validation step is \<open>json_Unmarshal\<close> alone. When it returns an error
  the operation fails with that error wrapped as invalid models JSON and the cache is
  unchanged; when it returns none, the bytes are stored with the instant of the call,
  whether they are an object, an array or a scalar. This holds for \<open>LoadFromFile\<close> on the
  bytes read from the file, and for \<open>refresh\<close> on the body of a response with status 200.
\<close>

theorem payload_validation:
  "(os_ReadFile failure files path = Inr data \<longrightarrow>
      LoadFromFile now failure files path c =
        (case json_Unmarshal data of
           Some je \<Rightarrow> (Some (InvalidModelsJSON je), c)
         | None \<Rightarrow> (None, c\<lparr>modelsJSON := data, lastFetch := now\<rparr>))) \<and>
   (GetToken io (tokenManager c) ctx = Inr token \<and>
    NewRequestWithContext ctx ''GET'' modelsURL = Inr req0 \<and>
    Do io (httpClient c) (models_request req0 token) = Inr resp \<and>
    StatusCode resp = 200 \<and> BodyErr resp = None \<longrightarrow>
      refresh io ctx c =
        (case json_Unmarshal (Body resp) of
           Some je \<Rightarrow> (Some (InvalidModelsJSON je), c, [models_request req0 token])
         | None \<Rightarrow> (None, c\<lparr>modelsJSON := Body resp, lastFetch := Now io\<rparr>,
             [models_request req0 token])))"
proof (intro conjI impI)
  assume "os_ReadFile failure files path = Inr data"
  then show "LoadFromFile now failure files path c =
        (case json_Unmarshal data of
           Some je \<Rightarrow> (Some (InvalidModelsJSON je), c)
         | None \<Rightarrow> (None, c\<lparr>modelsJSON := data, lastFetch := now\<rparr>))"
    by (simp add: LoadFromFile_def)
next
  assume "GetToken io (tokenManager c) ctx = Inr token \<and>
    NewRequestWithContext ctx ''GET'' modelsURL = Inr req0 \<and>
    Do io (httpClient c) (models_request req0 token) = Inr resp \<and>
    StatusCode resp = 200 \<and> BodyErr resp = None"
  then show "refresh io ctx c =
        (case json_Unmarshal (Body resp) of
           Some je \<Rightarrow> (Some (InvalidModelsJSON je), c, [models_request req0 token])
         | None \<Rightarrow> (None, c\<lparr>modelsJSON := Body resp, lastFetch := Now io\<rparr>,
             [models_request req0 token]))"
    by (simp add: refresh_200)
qed

theorem payload_validation_witness:
  "LoadFromFile 7 None [''models.json'' \<mapsto> ''{\"data\":''] ''models.json'' example_cache
     = (Some (InvalidModelsJSON SyntaxError), example_cache) \<and>
   refresh (answering 200 ''200 OK'' ''{\"data\":'' 7) Background example_cache
     = (Some (InvalidModelsJSON SyntaxError), example_cache, [example_request])"
proof -
  let ?files = "[''models.json'' \<mapsto> ''{\"data\":'']"
  let ?io = "answering 200 ''200 OK'' ''{\"data\":'' 7"
  let ?req0 = "\<lparr>Method = ''GET'', URL = modelsURL, Ctx = Background, Header = Map.empty\<rparr>"
  let ?resp = "\<lparr>StatusCode = 200, Status = ''200 OK'', Body = ''{\"data\":'', BodyErr = None\<rparr>"
  have r: "os_ReadFile None ?files ''models.json'' = Inr ''{\"data\":''"
    by (simp add: os_ReadFile_def)
  have q: "NewRequestWithContext Background ''GET'' modelsURL = Inr ?req0"
    by (simp add: NewRequestWithContext_def)
  have h: "GetToken ?io (tokenManager example_cache) Background = Inr ''tok'' \<and>
    NewRequestWithContext Background ''GET'' modelsURL = Inr ?req0 \<and>
    Do ?io (httpClient example_cache) (models_request ?req0 ''tok'') = Inr ?resp \<and>
    StatusCode ?resp = 200 \<and> BodyErr ?resp = None"
    by (simp add: answering_def q)
  have e: "models_request ?req0 ''tok'' = example_request"
    by (rule example_request_eq [OF q])
  from payload_validation [where failure = None and files = ?files and path = "''models.json''"
      and data = "''{\"data\":''" and now = 7 and c = example_cache and io = ?io
      and ctx = Background and token = "''tok''" and ?req0.0 = ?req0 and resp = ?resp] r h e
  show ?thesis by (simp add: json_unclosed)
qed

section \<open>Reading the cache\<close>

text \<open>
  C4: while a blob is present and its age, as \<open>time.Since\<close> measures it, is within the
  TTL, \<open>GetModels\<close> returns exactly the stored bytes with no error and starts no refresh.
  The function takes no outcome of the network: it cannot perform I/O.
\<close>

theorem GetModels_fresh:
  assumes "modelsJSON c \<noteq> []" and "time_Since now (lastFetch c) \<le> ttl c"
  shows "GetModels now ctx c = (Inr (modelsJSON c), [])"
  using assms by (simp add: GetModels_def)

theorem GetModels_fresh_witness:
  "modelsJSON example_cache \<noteq> [] \<and> time_Since 130 (lastFetch example_cache) \<le> ttl example_cache \<and>
   GetModels 130 (CallerContext 1) example_cache = (Inr ''{}'', [])"
proof -
  have a: "modelsJSON example_cache \<noteq> []" by (simp add: example_cache_def)
  have b: "time_Since 130 (lastFetch example_cache) \<le> ttl example_cache"
    by (simp add: example_cache_def time_Since_def time_Sub_def maxDuration_def minDuration_def)
  from GetModels_fresh [OF a b, of "CallerContext 1"] a b show ?thesis
    by (simp add: example_cache_def)
qed

text \<open>
  C2: when the entry is stale (\<open>time.Since(lastFetch) > ttl\<close>), \<open>GetModels\<close> returns the
  stored blob with no error if one is present and the models-not-available error if none
  is, and in both cases starts exactly one refresh, under the background context whatever
  the caller's context is. The result is a function of the cache and the clock alone, so
  no outcome of the network can delay or change it; and when the refresh it started fails,
  the next call still returns the blob.
\<close>

theorem GetModels_stale:
  assumes "time_Since now (lastFetch c) > ttl c"
  shows "GetModels now ctx c =
      (if modelsJSON c \<noteq> [] then Inr (modelsJSON c) else Inl ModelsNotAvailable, [Background]) \<and>
    (modelsJSON c \<noteq> [] \<and> refresh io Background c = (Some e, c', sent) \<longrightarrow>
       fst (GetModels now' ctx' c') = Inr (modelsJSON c))"
proof (intro conjI impI)
  from assms show "GetModels now ctx c =
      (if modelsJSON c \<noteq> [] then Inr (modelsJSON c) else Inl ModelsNotAvailable, [Background])"
    by (simp add: GetModels_def)
next
  assume a: "modelsJSON c \<noteq> [] \<and> refresh io Background c = (Some e, c', sent)"
  then have "c' = c" by (blast dest: refresh_error_keeps_cache)
  with a show "fst (GetModels now' ctx' c') = Inr (modelsJSON c)"
    by (simp add: GetModels_serves_blob)
qed

theorem GetModels_stale_witness:
  "time_Since 200 (lastFetch example_cache) > ttl example_cache \<and>
   GetModels 200 (CallerContext 1) example_cache = (Inr ''{}'', [Background]) \<and>
   refresh (answering 500 ''500 Internal Server Error'' ''down'' 201) Background example_cache
     = (Some (ModelsAPIError ''500 Internal Server Error'' ''down''), example_cache, [example_request]) \<and>
   fst (GetModels 300 (CallerContext 2) example_cache) = Inr ''{}''"
proof -
  let ?io = "answering 500 ''500 Internal Server Error'' ''down'' 201"
  have a: "time_Since 200 (lastFetch example_cache) > ttl example_cache"
    by (simp add: example_cache_def time_Since_def time_Sub_def maxDuration_def minDuration_def)
  have r: "refresh ?io Background example_cache
     = (Some (ModelsAPIError ''500 Internal Server Error'' ''down''), example_cache, [example_request])"
    by (simp add: refresh_answering_other)
  have b: "modelsJSON example_cache = ''{}''" by (simp add: example_cache_def)
  from GetModels_stale [OF a, where ctx = "CallerContext 1" and io = ?io
      and e = "ModelsAPIError ''500 Internal Server Error'' ''down''" and c' = example_cache
      and sent = "[example_request]" and now' = 300 and ctx' = "CallerContext 2"] a r b
  show ?thesis by simp
qed

section \<open>Refreshing\<close>

text \<open>
  C3: whenever \<open>refresh\<close> returns an error the cache after the call is the cache before
  it, so the blob and lastFetch are unchanged. It returns no error exactly when the token
  was obtained, the request was built, the transport answered with status 200, the body
  was read to its end and passed \<open>json_Unmarshal\<close>; then, and only then, the blob becomes
  that body and lastFetch the instant of the commit, both in one step, and no other field
  changes.
\<close>

theorem refresh_no_clobber:
  "(case refresh io ctx c of
      (Some e, c', sent) \<Rightarrow> c' = c
    | (None, c', sent) \<Rightarrow>
        c' = c\<lparr>modelsJSON := modelsJSON c', lastFetch := Now io\<rparr> \<and>
        json_Unmarshal (modelsJSON c') = None) \<and>
   (fst (refresh io ctx c) = None \<longleftrightarrow>
      (\<exists>token req0 resp.
         GetToken io (tokenManager c) ctx = Inr token \<and>
         NewRequestWithContext ctx ''GET'' modelsURL = Inr req0 \<and>
         Do io (httpClient c) (models_request req0 token) = Inr resp \<and>
         StatusCode resp = 200 \<and> BodyErr resp = None \<and> json_Unmarshal (Body resp) = None \<and>
         fst (snd (refresh io ctx c)) = c\<lparr>modelsJSON := Body resp, lastFetch := Now io\<rparr>))"
proof
  show "case refresh io ctx c of
      (Some e, c', sent) \<Rightarrow> c' = c
    | (None, c', sent) \<Rightarrow>
        c' = c\<lparr>modelsJSON := modelsJSON c', lastFetch := Now io\<rparr> \<and>
        json_Unmarshal (modelsJSON c') = None"
  proof (cases "refresh io ctx c")
    case (fields r c' sent)
    then show ?thesis
      by (cases r) (auto dest: refresh_error_keeps_cache refresh_success_commits)
  qed
next
  show "fst (refresh io ctx c) = None \<longleftrightarrow>
      (\<exists>token req0 resp.
         GetToken io (tokenManager c) ctx = Inr token \<and>
         NewRequestWithContext ctx ''GET'' modelsURL = Inr req0 \<and>
         Do io (httpClient c) (models_request req0 token) = Inr resp \<and>
         StatusCode resp = 200 \<and> BodyErr resp = None \<and> json_Unmarshal (Body resp) = None \<and>
         fst (snd (refresh io ctx c)) = c\<lparr>modelsJSON := Body resp, lastFetch := Now io\<rparr>)"
    by (auto simp: refresh_def Let_def split: sum.splits option.splits if_splits)
qed

theorem refresh_no_clobber_witness:
  "refresh (answering 401 ''401 Unauthorized'' ''denied'' 9) Background example_cache
     = (Some (ModelsAPIError ''401 Unauthorized'' ''denied''), example_cache, [example_request]) \<and>
   fst (snd (refresh (answering 401 ''401 Unauthorized'' ''denied'' 9) Background example_cache))
     = example_cache"
  using refresh_no_clobber [where io = "answering 401 ''401 Unauthorized'' ''denied'' 9"
      and ctx = Background and c = example_cache]
  by (simp add: refresh_answering_other)

text \<open>
  C5 as the specification states it: any 2xx status is accepted and proceeds to body
  validation. The status 201 refutes it: with a body that is a JSON object, \<open>refresh\<close>
  fails with the models-API error and stores nothing.
\<close>

theorem status_201_is_refused:
  "json_Unmarshal ''{}'' = None \<and>
   refresh (answering 201 ''201 Created'' ''{}'' 7) Background
       (example_cache\<lparr>modelsJSON := ''[0]''\<rparr>)
     = (Some (ModelsAPIError ''201 Created'' ''{}''), example_cache\<lparr>modelsJSON := ''[0]''\<rparr>,
        [example_request])"
  by (simp add: json_empty_object refresh_answering_other)

text \<open>
  C5, amended: for every response the transport returns, the status 200 alone is accepted
  and proceeds to body validation (the read error of the body, then \<open>json_Unmarshal\<close>);
  every other status, the other 2xx included, makes \<open>refresh\<close> fail with the models-API
  error carrying the response's status line and the body bytes that could be read, and
  leaves the cache untouched.
\<close>

theorem refresh_status:
  assumes "GetToken io (tokenManager c) ctx = Inr token"
    and "NewRequestWithContext ctx ''GET'' modelsURL = Inr req0"
    and "Do io (httpClient c) (models_request req0 token) = Inr resp"
  shows "refresh io ctx c =
     (if StatusCode resp \<noteq> 200 then
        (Some (ModelsAPIError (Status resp) (Body resp)), c, [models_request req0 token])
      else
        (case BodyErr resp of
           Some e \<Rightarrow> (Some (BodyReadError e), c, [models_request req0 token])
         | None \<Rightarrow>
             (case json_Unmarshal (Body resp) of
                Some je \<Rightarrow> (Some (InvalidModelsJSON je), c, [models_request req0 token])
              | None \<Rightarrow> (None, c\<lparr>modelsJSON := Body resp, lastFetch := Now io\<rparr>,
                  [models_request req0 token]))))"
  using assms by (simp add: refresh_def Let_def split: option.splits)

theorem refresh_status_witness:
  "refresh (answering 204 ''204 No Content'' [] 7) Background example_cache
     = (Some (ModelsAPIError ''204 No Content'' []), example_cache, [example_request]) \<and>
   refresh (answering 200 ''200 OK'' ''[1,2,3]'' 7) Background example_cache
     = (None, example_cache\<lparr>modelsJSON := ''[1,2,3]'', lastFetch := 7\<rparr>, [example_request])"
proof -
  let ?req0 = "\<lparr>Method = ''GET'', URL = modelsURL, Ctx = Background, Header = Map.empty\<rparr>"
  have q: "NewRequestWithContext Background ''GET'' modelsURL = Inr ?req0"
    by (simp add: NewRequestWithContext_def)
  have e: "models_request ?req0 ''tok'' = example_request"
    by (rule example_request_eq [OF q])
  have t: "GetToken (answering code line body 7) (tokenManager example_cache) Background = Inr ''tok''"
    for code line body
    by (simp add: answering_def)
  have d: "Do (answering code line body 7) (httpClient example_cache) (models_request ?req0 ''tok'')
      = Inr \<lparr>StatusCode = code, Status = line, Body = body, BodyErr = None\<rparr>"
    for code line body
    by (simp add: answering_def)
  from refresh_status [OF t q d, where code1 = 204 and line1 = "''204 No Content''" and body1 = "[]"]
    refresh_status [OF t q d, where code1 = 200 and line1 = "''200 OK''" and body1 = "''[1,2,3]''"] e
  show ?thesis by (simp add: json_array_123 answering_def)
qed

section \<open>Construction\<close>

text \<open>
  C6: \<open>NewModelsCache\<close> runs \<open>refresh\<close> once on the empty cache before it returns, and
  sends at most one request. Every error of that run is returned and no cache is (the
  result is \<open>Inl\<close>). When a cache is returned, that run succeeded: exactly one request
  was sent, and the cache holds a non-empty blob that passed \<open>json_Unmarshal\<close>, fetched at
  the instant of the commit.
\<close>

theorem NewModelsCache_seeded:
  "(fst (refresh io ctx \<lparr>modelsJSON = [], lastFetch = 0, ttl = d, tokenManager = tm,
        httpClient = (case hc of None \<Rightarrow> DefaultClient | Some h \<Rightarrow> h)\<rparr>) = Some e
      \<longrightarrow> fst (NewModelsCache io ctx tm d hc) = Inl e) \<and>
   (fst (NewModelsCache io ctx tm d hc) = Inr c \<longrightarrow>
      refresh io ctx \<lparr>modelsJSON = [], lastFetch = 0, ttl = d, tokenManager = tm,
        httpClient = (case hc of None \<Rightarrow> DefaultClient | Some h \<Rightarrow> h)\<rparr>
        = (None, c, snd (NewModelsCache io ctx tm d hc)) \<and>
      modelsJSON c \<noteq> [] \<and> json_Unmarshal (modelsJSON c) = None \<and>
      lastFetch c = Now io \<and> ttl c = d \<and>
      length (snd (NewModelsCache io ctx tm d hc)) = 1) \<and>
   length (snd (NewModelsCache io ctx tm d hc)) \<le> 1"
proof -
  let ?c0 = "\<lparr>modelsJSON = [], lastFetch = 0, ttl = d, tokenManager = tm,
        httpClient = (case hc of None \<Rightarrow> DefaultClient | Some h \<Rightarrow> h)\<rparr>"
  obtain r c' sent where run: "refresh io ctx ?c0 = (r, c', sent)"
    by (cases "refresh io ctx ?c0") blast
  have new: "NewModelsCache io ctx tm d hc =
      (case r of Some e \<Rightarrow> (Inl e, sent) | None \<Rightarrow> (Inr c', sent))"
    by (simp add: NewModelsCache_def run split: option.splits)
  have len: "length sent \<le> 1"
    using refresh_sent_le_1 [of io ctx ?c0] by (simp add: run)
  show ?thesis
  proof (cases r)
    case None
    with run have commit: "c' = ?c0\<lparr>modelsJSON := modelsJSON c', lastFetch := Now io\<rparr>"
      and valid: "json_Unmarshal (modelsJSON c') = None"
      by (auto dest: refresh_success_commits)
    from valid have nonempty: "modelsJSON c' \<noteq> []"
      by (rule json_Unmarshal_nonempty)
    have one: "length sent = 1"
      using run None by (auto simp: refresh_def Let_def split: sum.splits option.splits if_splits)
    have lf: "lastFetch c' = Now io" and tt: "ttl c' = d"
      by (subst commit, simp)+
    from None run new valid nonempty one lf tt show ?thesis by auto
  next
    case (Some e')
    with run new len show ?thesis by auto
  qed
qed

theorem NewModelsCache_seeded_witness:
  "fst (NewModelsCache (answering 401 ''401 Unauthorized'' ''denied'' 9) Background 0 50 None)
     = Inl (ModelsAPIError ''401 Unauthorized'' ''denied'') \<and>
   fst (NewModelsCache (answering 200 ''200 OK'' ''{}'' 100) Background 0 50 None)
     = Inr example_cache \<and>
   length (snd (NewModelsCache (answering 200 ''200 OK'' ''{}'' 100) Background 0 50 None)) = 1"
proof -
  let ?c0 = "\<lparr>modelsJSON = [], lastFetch = 0, ttl = 50, tokenManager = 0,
        httpClient = (case None of None \<Rightarrow> DefaultClient | Some h \<Rightarrow> h)\<rparr>"
  have bad: "fst (refresh (answering 401 ''401 Unauthorized'' ''denied'' 9) Background ?c0)
      = Some (ModelsAPIError ''401 Unauthorized'' ''denied'')"
    by (simp add: refresh_answering_other)
  have good: "fst (NewModelsCache (answering 200 ''200 OK'' ''{}'' 100) Background 0 50 None)
      = Inr example_cache"
    by (simp add: NewModelsCache_def refresh_answering_200 json_empty_object example_cache_def)
  from NewModelsCache_seeded [where io = "answering 401 ''401 Unauthorized'' ''denied'' 9"
      and ctx = Background and d = 50 and tm = 0 and hc = None
      and e = "ModelsAPIError ''401 Unauthorized'' ''denied''" and c = example_cache]
    NewModelsCache_seeded [where io = "answering 200 ''200 OK'' ''{}'' 100"
      and ctx = Background and d = 50 and tm = 0 and hc = None
      and e = "ModelsAPIError ''401 Unauthorized'' ''denied''" and c = example_cache]
    bad good
  show ?thesis by simp
qed

section \<open>Saving and loading\<close>

text \<open>
  C8: when no blob is cached \<open>SaveToFile\<close> fails with the no-models error and the file
  system is unchanged, whatever the write would have done. When a blob is cached the
  call is \<open>os.WriteFile\<close> on exactly the blob's bytes, and when it returns no error the
  file at the path holds exactly those bytes.
\<close>

theorem SaveToFile_verbatim:
  "(modelsJSON c = [] \<longrightarrow> SaveToFile w files path c = (Some NoModelsToSave, files)) \<and>
   (modelsJSON c \<noteq> [] \<longrightarrow>
      SaveToFile w files path c =
        (map_option FileError (fst (os_WriteFile w files path (modelsJSON c))),
         snd (os_WriteFile w files path (modelsJSON c)))) \<and>
   (modelsJSON c \<noteq> [] \<and> fst (SaveToFile w files path c) = None \<longrightarrow>
      snd (SaveToFile w files path c) = files(path \<mapsto> modelsJSON c))"
  by (cases w) (auto simp: SaveToFile_def os_WriteFile_def)

theorem SaveToFile_verbatim_witness:
  "SaveToFile WriteOk Map.empty ''m.json'' (example_cache\<lparr>modelsJSON := []\<rparr>)
     = (Some NoModelsToSave, Map.empty) \<and>
   SaveToFile WriteOk Map.empty ''m.json'' example_cache = (None, [''m.json'' \<mapsto> ''{}''])"
proof -
  have a: "modelsJSON (example_cache\<lparr>modelsJSON := []\<rparr>) = []" by simp
  have b: "modelsJSON example_cache = ''{}''" by (simp add: example_cache_def)
  from SaveToFile_verbatim [where c = "example_cache\<lparr>modelsJSON := []\<rparr>" and w = WriteOk
      and files = Map.empty and path = "''m.json''"]
    SaveToFile_verbatim [where c = example_cache and w = WriteOk
      and files = Map.empty and path = "''m.json''"] a b
  show ?thesis by (simp add: os_WriteFile_def)
qed

text \<open>
  C7: when \<open>SaveToFile\<close> of a cache has returned no error and a \<open>LoadFromFile\<close> of the same
  path, into any cache, then returns no error, the blob of the loading cache is
  byte-identical to the blob saved and its lastFetch is the instant of the load; the
  fetch time of the saved cache is not kept.
\<close>

theorem save_load_roundtrip:
  assumes "SaveToFile w files path c = (None, files')"
    and "LoadFromFile now failure files' path d = (None, d')"
  shows "modelsJSON d' = modelsJSON c \<and> lastFetch d' = now \<and>
    d' = d\<lparr>modelsJSON := modelsJSON c, lastFetch := now\<rparr>"
proof -
  from assms(1) have written: "files' path = Some (modelsJSON c)"
    by (cases w) (auto simp: SaveToFile_def os_WriteFile_def split: if_splits)
  from assms(2) have "d' = d\<lparr>modelsJSON := modelsJSON d', lastFetch := now\<rparr>"
    and "files' path = Some (modelsJSON d')"
    by (auto dest: LoadFromFile_success_commits)
  with written show ?thesis by (metis ModelsCache.select_convs(1,2) ModelsCache.surjective
        ModelsCache.update_convs(1,2) option.inject)
qed

theorem save_load_roundtrip_witness:
  "SaveToFile WriteOk Map.empty ''m.json'' example_cache = (None, [''m.json'' \<mapsto> ''{}'']) \<and>
   LoadFromFile 500 None [''m.json'' \<mapsto> ''{}''] ''m.json'' (example_cache\<lparr>modelsJSON := ''[0]''\<rparr>)
     = (None, example_cache\<lparr>lastFetch := 500\<rparr>) \<and>
   lastFetch (example_cache\<lparr>lastFetch := 500\<rparr>) = 500 \<and>
   modelsJSON (example_cache\<lparr>lastFetch := 500\<rparr>) = modelsJSON example_cache"
proof -
  have s: "SaveToFile WriteOk Map.empty ''m.json'' example_cache = (None, [''m.json'' \<mapsto> ''{}''])"
    by (simp add: SaveToFile_def os_WriteFile_def example_cache_def)
  have l: "LoadFromFile 500 None [''m.json'' \<mapsto> ''{}''] ''m.json''
      (example_cache\<lparr>modelsJSON := ''[0]''\<rparr>) = (None, example_cache\<lparr>lastFetch := 500\<rparr>)"
    by (simp add: LoadFromFile_def os_ReadFile_def json_empty_object example_cache_def)
  from save_load_roundtrip [OF s l] s l show ?thesis by simp
qed

section \<open>The invariant of the blob\<close>

text \<open>
  C9: in every state a cache reaches after its construction, through any number of
  refreshes and loads with any outcomes, the stored blob is a non-empty byte sequence that
  passes \<open>json_Unmarshal\<close>, hence is well-formed JSON for the scanner. Both paths that store a blob store bytes that have just passed
  it, the empty byte sequence does not pass, and no path clears the blob.
\<close>

theorem blob_invariant:
  assumes "reachable c"
  shows "modelsJSON c \<noteq> [] \<and> json_Unmarshal (modelsJSON c) = None \<and>
    checkValid (modelsJSON c) \<and> json_Unmarshal [] \<noteq> None"
  using reachable_blob_accepted [OF assms]
  by (simp add: json_Unmarshal_nonempty json_Unmarshal_empty json_Unmarshal_checkValid)

theorem blob_invariant_witness:
  "reachable example_cache \<and> modelsJSON example_cache \<noteq> [] \<and>
   json_Unmarshal (modelsJSON example_cache) = None"
  using blob_invariant [OF reachable_example] reachable_example by simp

section \<open>The proxy\<close>

text \<open>
  C10: for every environment the proxy URL \<open>Load\<close> computes is the first non-empty value
  among HTTPS_PROXY, https_proxy, HTTP_PROXY, http_proxy, ALL_PROXY and all_proxy, looked
  up in this order, and the empty string when none of them has a non-empty value.
\<close>

theorem Load_httpProxy_precedence:
  "Load_httpProxy env = spec_proxy env"
  by (simp add: Load_httpProxy_def spec_proxy_def proxy_variables_def Let_def)

theorem Load_httpProxy_precedence_witness:
  "Load_httpProxy [''ALL_PROXY'' \<mapsto> ''socks5://a:1'', ''http_proxy'' \<mapsto> ''http://b:2'',
      ''HTTPS_PROXY'' \<mapsto> ''''] = ''http://b:2'' \<and>
   Load_httpProxy Map.empty = ''''"
  using Load_httpProxy_precedence [of "[''ALL_PROXY'' \<mapsto> ''socks5://a:1'',
      ''http_proxy'' \<mapsto> ''http://b:2'', ''HTTPS_PROXY'' \<mapsto> '''']"]
    Load_httpProxy_precedence [of Map.empty]
  by (simp add: spec_proxy_def proxy_variables_def getEnv_def)

end
